theory Spec2Isabelle
  imports Main "HOL-Library.Word"
begin

section \<open>Polaris block header tracking (cosmos/x/evm/plugins/block/header.go)\<close>

text \<open>
  A shallow embedding of the block plugin's header store: \<open>SetQueryContextFn\<close>,
  \<open>GetHeaderByNumber\<close>, \<open>StoreHeader\<close>, \<open>getKeyForBlockNumber\<close>,
  \<open>readHeaderBytes\<close> and \<open>readGenesisHeaderBytes\<close>.

  Go values are modelled as follows.
  \<^item> \<open>uint64\<close> and \<open>int64\<close> are \<open>64 word\<close>; the conversions \<open>uint64(x)\<close> and
    \<open>int64(x)\<close> keep the bits, and \<open>>\<close> on \<open>uint64\<close> is the unsigned order of words.
  \<^item> \<open>[]byte\<close> is a list of bytes; a \<open>nil\<close> slice returned by a store read is \<open>None\<close>.
  \<^item> A pointer that may be \<open>nil\<close> (\<open>*coretypes.Header\<close>, \<open>*big.Int\<close>, the function
    value \<open>getQueryContext\<close>) and the interface \<open>error\<close> are options, \<open>None\<close> being
    \<open>nil\<close>. Dereferencing \<open>nil\<close> panics, which is the outcome \<open>Panics\<close>.
  \<^item> Calls that leave the component (store reads and writes, the query context function)
    are recorded, in order, in a list of events returned beside the result.
\<close>

subsection \<open>Data\<close>

type_synonym bytes = "8 word list"

type_synonym kvstore = "bytes \<rightharpoonup> bytes"

text \<open>
  Go's \<open>error\<close> values: \<open>New s\<close> is \<open>errors.New(s)\<close>, and \<open>Wrapped\<close> is what the
  wrapping helpers below build, holding the wrapped error (possibly \<open>nil\<close>), the message
  or format string, and the format's arguments.
\<close>

datatype error = New string | Wrapped "error option" string "64 word list"

text \<open>
  Modelled from the spec: \<open>errorslib.Wrap\<close> and \<open>errorslib.Wrapf\<close> of
  \<open>pkg.berachain.dev/polaris/lib/errors\<close> are not among the source files. The spec has
  failures "surfaced to caller verbatim (wrapped with context)", a query context failure
  "wrapping the adapter's error" and a mismatch failure "carrying both the expected and
  actual numbers": wrapping always yields an error value, also around a \<open>nil\<close> error.
\<close>

definition Wrap :: "error option \<Rightarrow> string \<Rightarrow> error option" where
  "Wrap err msg = Some (Wrapped err msg [])"

definition Wrapf :: "error option \<Rightarrow> string \<Rightarrow> 64 word list \<Rightarrow> error option" where
  "Wrapf err format args = Some (Wrapped err format args)"

text \<open>
  \<open>coretypes.Header\<close>: the field \<open>Number *big.Int\<close> is the only one the component
  reads; the remaining fields are carried as one opaque value.
\<close>

record header =
  Number :: "int option"
  Rest :: bytes

text \<open>
  \<open>sdk.Context\<close>, as far as it is used: \<open>BlockHeight()\<close> (an \<open>int64\<close>) and
  \<open>KVStore(key)\<close>, the store mounted under a store key. Calls into the host are taken
  to return: \<open>KVStore\<close> is a total lookup, so the panic of the SDK for a store key under
  which nothing is mounted is outside the model, as is any panic inside \<open>Get\<close>, \<open>Set\<close>,
  the query context function or the codec. The outcome \<open>Panics\<close> below stands for the
  panics of header.go's own code, the \<open>nil\<close> dereferences.
\<close>

record sdk_context =
  BlockHeight :: "64 word"
  KVStore :: "string \<Rightarrow> kvstore"

record plugin =
  ctx :: sdk_context
  storekey :: string
  getQueryContext :: "(64 word \<Rightarrow> bool \<Rightarrow> sdk_context \<times> error option) option"

text \<open>
  What header.go imports from packages that are not among the source files, taken as
  parameters: the two key bytes \<open>types.HeaderKey\<close> and \<open>types.GenesisHeaderKey\<close>, and
  the codec \<open>coretypes.MarshalHeader\<close> and \<open>coretypes.UnmarshalHeader\<close>, each
  returning Go's pair of a value and an error.
\<close>

record deps =
  HeaderKey :: "8 word"
  GenesisHeaderKey :: "8 word"
  MarshalHeader :: "header option \<Rightarrow> bytes \<times> error option"
  UnmarshalHeader :: "bytes \<Rightarrow> header option \<times> error option"

datatype event =
  LiveGet bytes
  | LiveSet bytes bytes
  | QueryContext "64 word" bool
  | ViewGet bytes

datatype 'a outcome = Returns 'a | Panics

subsection \<open>Operations\<close>

text \<open>
  \<open>x.Uint64()\<close> of \<open>math/big\<close>: the low 64 bits of the absolute value of \<open>x\<close>.
\<close>

definition Uint64 :: "int \<Rightarrow> 64 word" where
  "Uint64 x = word_of_int \<bar>x\<bar>"

text \<open>
  The expression \<open>header.Number.Uint64()\<close>: it dereferences \<open>header\<close> and, inside
  \<open>Uint64\<close>, \<open>header.Number\<close>.
\<close>

definition Number_Uint64 :: "header option \<Rightarrow> 64 word outcome" where
  "Number_Uint64 hdr =
     (case hdr of
        None \<Rightarrow> Panics
      | Some h \<Rightarrow> (case Number h of None \<Rightarrow> Panics | Some x \<Rightarrow> Returns (Uint64 x)))"

definition SetQueryContextFn ::
  "plugin \<Rightarrow> (64 word \<Rightarrow> bool \<Rightarrow> sdk_context \<times> error option) option \<Rightarrow> plugin" where
  "SetQueryContextFn p gqc = p\<lparr>getQueryContext := gqc\<rparr>"

definition getKeyForBlockNumber :: "deps \<Rightarrow> 64 word \<Rightarrow> bytes" where
  "getKeyForBlockNumber d number =
     (let key = HeaderKey d;
          key = (if number = 0 then GenesisHeaderKey d else key)
      in [key])"

definition readGenesisHeaderBytes :: "deps \<Rightarrow> plugin \<Rightarrow> event list \<times> bytes option" where
  "readGenesisHeaderBytes d p =
     ([LiveGet [GenesisHeaderKey d]], KVStore (ctx p) (storekey p) [GenesisHeaderKey d])"

definition readHeaderBytes ::
  "deps \<Rightarrow> plugin \<Rightarrow> 64 word \<Rightarrow> event list \<times> bytes option \<times> error option" where
  "readHeaderBytes d p number =
     (if number = 0 then
        (case readGenesisHeaderBytes d p of (tr, bz) \<Rightarrow> (tr, bz, None))
      else
        (case getQueryContext p of
           None \<Rightarrow> ([], None, Some (New ''GetHeader: getQueryContext is nil''))
         | Some gqc \<Rightarrow>
             (let number = (if BlockHeight (ctx p) < number then BlockHeight (ctx p) else number)
              in (case gqc number False of
                    (qctx, err) \<Rightarrow>
                      if err \<noteq> None then
                        ([QueryContext number False], None,
                         Wrap err ''GetHeader: failed to use query context'')
                      else
                        ([QueryContext number False, ViewGet [HeaderKey d]],
                         KVStore qctx (storekey p) [HeaderKey d], None)))))"

text \<open>
  In \<open>GetHeaderByNumber\<close> the height clamped inside \<open>readHeaderBytes\<close> is local to that
  function: \<open>number\<close> below is the caller's argument. At the mismatch return the variable
  \<open>err\<close> is the one assigned by \<open>UnmarshalHeader\<close>, which is \<open>nil\<close> on that path.
\<close>

definition GetHeaderByNumber ::
  "deps \<Rightarrow> plugin \<Rightarrow> 64 word \<Rightarrow> event list \<times> (header option \<times> error option) outcome" where
  "GetHeaderByNumber d p number =
     (case readHeaderBytes d p number of
        (tr, bz, err) \<Rightarrow>
          if err \<noteq> None then (tr, Returns (None, err))
          else
            (case bz of
               None \<Rightarrow>
                 (tr, Returns (None, Some (New ''GetHeader: polaris header not found in kvstore'')))
             | Some bz \<Rightarrow>
                 (case UnmarshalHeader d bz of
                    (hdr, err) \<Rightarrow>
                      if err \<noteq> None then
                        (tr, Returns (None, Wrap err ''GetHeader: failed to unmarshal''))
                      else
                        (case Number_Uint64 hdr of
                           Panics \<Rightarrow> (tr, Panics)
                         | Returns n \<Rightarrow>
                             if n \<noteq> number then
                               (tr, Returns (None,
                                  Wrapf err
                                    ''GetHeader: header number mismatch, got %d, expected %d''
                                    [n, number]))
                             else (tr, Returns (hdr, None))))))"

text \<open>
  \<open>StoreHeader\<close> returns the plugin with its live store updated, the events, and the
  returned error. The store is looked up and the key computed before \<open>Set\<close> is called,
  so a panic in \<open>header.Number.Uint64()\<close> leaves the store as it was.
\<close>

definition StoreHeader ::
  "deps \<Rightarrow> plugin \<Rightarrow> header option \<Rightarrow> plugin \<times> event list \<times> error option outcome" where
  "StoreHeader d p hdr =
     (case MarshalHeader d hdr of
        (bz, err) \<Rightarrow>
          if err \<noteq> None then (p, [], Returns (Wrap err ''SetHeader: failed to marshal header''))
          else
            (case Number_Uint64 hdr of
               Panics \<Rightarrow> (p, [], Panics)
             | Returns n \<Rightarrow>
                 (let key = getKeyForBlockNumber d n;
                      store = (KVStore (ctx p) (storekey p))(key \<mapsto> bz)
                  in (p\<lparr>ctx := (ctx p)\<lparr>KVStore := (KVStore (ctx p))(storekey p := store)\<rparr>\<rparr>,
                      [LiveSet key bz], Returns None))))"

text \<open>The calls to the query context function among a list of events.\<close>

fun queryContextCalls :: "event list \<Rightarrow> (64 word \<times> bool) list" where
  "queryContextCalls [] = []"
| "queryContextCalls (QueryContext height prove # es) = (height, prove) # queryContextCalls es"
| "queryContextCalls (e # es) = queryContextCalls es"

subsection \<open>A concrete environment\<close>

text \<open>
  A small environment on which the theorems below are instantiated: two distinct key
  bytes, and a codec in the manner of RLP for headers numbered below 128 (a number is
  one byte, zero and an absent number are the byte \<open>0x80\<close>, a negative number is
  refused), followed by the remaining fields.
\<close>

definition example_marshal :: "header option \<Rightarrow> bytes \<times> error option" where
  "example_marshal hdr =
     (case hdr of
        None \<Rightarrow> ([0xC0], None)
      | Some h \<Rightarrow>
          (case Number h of
             None \<Rightarrow> (0x80 # Rest h, None)
           | Some x \<Rightarrow>
               if x < 0 then ([], Some (New ''rlp: cannot encode negative big.Int''))
               else if x = 0 then (0x80 # Rest h, None)
               else if x < 128 then (word_of_int x # Rest h, None)
               else ([], Some (New ''example codec: number too large''))))"

definition example_unmarshal :: "bytes \<Rightarrow> header option \<times> error option" where
  "example_unmarshal bz =
     (case bz of
        [] \<Rightarrow> (None, Some (New ''EOF''))
      | b # rest \<Rightarrow>
          if b = 0x80 then (Some \<lparr>Number = Some 0, Rest = rest\<rparr>, None)
          else if b < 0x80 then (Some \<lparr>Number = Some (uint b), Rest = rest\<rparr>, None)
          else (None, Some (New ''rlp: expected input string or byte for *big.Int'')))"

definition example_deps :: deps where
  "example_deps =
     \<lparr>HeaderKey = 1, GenesisHeaderKey = 2,
      MarshalHeader = example_marshal, UnmarshalHeader = example_unmarshal\<rparr>"

definition example_header :: "int \<Rightarrow> header" where
  "example_header x = \<lparr>Number = Some x, Rest = [0xAA, 0xBB]\<rparr>"

text \<open>A context at a height whose store \<open>''evm''\<close> holds the given store.\<close>

definition example_context :: "64 word \<Rightarrow> kvstore \<Rightarrow> sdk_context" where
  "example_context height store =
     \<lparr>BlockHeight = height, KVStore = (\<lambda>k. if k = ''evm'' then store else Map.empty)\<rparr>"

text \<open>
  A query context function that has the heights 1 to 5: the view at height \<open>n\<close> holds the
  header numbered \<open>n\<close> under the header key.
\<close>

definition example_gqc :: "64 word \<Rightarrow> bool \<Rightarrow> sdk_context \<times> error option" where
  "example_gqc height prove =
     (if 1 \<le> height \<and> height \<le> 5 then
        (example_context height
           [[1] \<mapsto> fst (example_marshal (Some (example_header (uint height))))], None)
      else (example_context 0 Map.empty, Some (New ''height not available'')))"

text \<open>
  A query context function whose view at height 5 holds a header numbered 9 under the
  header key.
\<close>

definition drifted_gqc :: "64 word \<Rightarrow> bool \<Rightarrow> sdk_context \<times> error option" where
  "drifted_gqc height prove =
     (if height = 5 then
        (example_context 5 [[1] \<mapsto> fst (example_marshal (Some (example_header 9)))], None)
      else (example_context 0 Map.empty, Some (New ''height not available'')))"

text \<open>
  A plugin at block height 5: the live store holds the genesis header under the genesis
  key and the header numbered 5 under the header key.
\<close>

definition example_plugin :: plugin where
  "example_plugin =
     \<lparr>ctx = example_context 5
        [[2] \<mapsto> fst (example_marshal (Some (example_header 0))),
         [1] \<mapsto> fst (example_marshal (Some (example_header 5)))],
      storekey = ''evm'',
      getQueryContext = Some example_gqc\<rparr>"

text \<open>A plugin at block height 5 whose live store is empty.\<close>

definition empty_plugin :: plugin where
  "empty_plugin =
     \<lparr>ctx = example_context 5 Map.empty, storekey = ''evm'', getQueryContext = None\<rparr>"

text \<open>
  A second encoder, which also takes the numbers from 128 on, in the manner of RLP: the
  byte \<open>0x80\<close> plus the count of the number's big-endian bytes, then those bytes.
\<close>

fun be_bytes :: "nat \<Rightarrow> bytes" where
  "be_bytes n = (if n = 0 then [] else be_bytes (n div 256) @ [word_of_nat (n mod 256)])"

declare be_bytes.simps [simp del]

definition wide_marshal :: "header option \<Rightarrow> bytes \<times> error option" where
  "wide_marshal hdr =
     (case hdr of
        None \<Rightarrow> example_marshal hdr
      | Some h \<Rightarrow>
          (case Number h of
             None \<Rightarrow> example_marshal hdr
           | Some x \<Rightarrow>
               if 128 \<le> x then
                 (word_of_nat (128 + length (be_bytes (nat x))) # be_bytes (nat x) @ Rest h, None)
               else example_marshal hdr))"

definition wide_deps :: deps where
  "wide_deps = example_deps\<lparr>MarshalHeader := wide_marshal\<rparr>"

section \<open>Properties\<close>

subsection \<open>Reading the header bytes\<close>

lemmas example_defs =
  example_deps_def example_plugin_def empty_plugin_def example_gqc_def drifted_gqc_def
  example_context_def example_header_def example_marshal_def example_unmarshal_def

lemma readHeaderBytes_genesis:
  "readHeaderBytes d p 0 =
     ([LiveGet [GenesisHeaderKey d]], KVStore (ctx p) (storekey p) [GenesisHeaderKey d], None)"
  by (simp add: readHeaderBytes_def readGenesisHeaderBytes_def)


lemma readHeaderBytes_failed:
  "number \<noteq> 0 \<Longrightarrow> getQueryContext p = Some gqc \<Longrightarrow>
   gqc (if BlockHeight (ctx p) < number then BlockHeight (ctx p) else number) False = (qctx, Some e) \<Longrightarrow>
   readHeaderBytes d p number =
     ([QueryContext (if BlockHeight (ctx p) < number then BlockHeight (ctx p) else number) False],
      None, Some (Wrapped (Some e) ''GetHeader: failed to use query context'' []))"
  by (simp add: readHeaderBytes_def Wrap_def Let_def)

lemma readHeaderBytes_view:
  "number \<noteq> 0 \<Longrightarrow> getQueryContext p = Some gqc \<Longrightarrow>
   gqc (if BlockHeight (ctx p) < number then BlockHeight (ctx p) else number) False = (qctx, None) \<Longrightarrow>
   readHeaderBytes d p number =
     ([QueryContext (if BlockHeight (ctx p) < number then BlockHeight (ctx p) else number) False,
       ViewGet [HeaderKey d]],
      KVStore qctx (storekey p) [HeaderKey d], None)"
  by (simp add: readHeaderBytes_def Let_def)

lemma fst_GetHeaderByNumber:
  "fst (GetHeaderByNumber d p number) = fst (readHeaderBytes d p number)"
  by (simp add: GetHeaderByNumber_def split: prod.splits option.splits outcome.splits)

text \<open>
  Claim C7. The key selection \<open>getKeyForBlockNumber\<close> is a function of the height
  alone: it yields the genesis header key for height 0 and the header key for every
  other height. As the two key bytes differ, the genesis key is returned if and only if
  the height is 0.
\<close>

theorem C7_getKeyForBlockNumber:
  "HeaderKey d \<noteq> GenesisHeaderKey d \<Longrightarrow>
   getKeyForBlockNumber d number = (if number = 0 then [GenesisHeaderKey d] else [HeaderKey d]) \<and>
   (getKeyForBlockNumber d number = [GenesisHeaderKey d] \<longleftrightarrow> number = 0) \<and>
   (getKeyForBlockNumber d number = [HeaderKey d] \<longleftrightarrow> number \<noteq> 0)"
  by (simp add: getKeyForBlockNumber_def)

theorem C7_getKeyForBlockNumber_witness:
  "getKeyForBlockNumber example_deps 0 = [2] \<and> getKeyForBlockNumber example_deps 7 = [1] \<and>
   getKeyForBlockNumber example_deps 7 \<noteq> [GenesisHeaderKey example_deps]"
  using C7_getKeyForBlockNumber [of example_deps 0] C7_getKeyForBlockNumber [of example_deps 7]
  by (simp add: example_deps_def)

lemma GetHeaderByNumber_genesis_any_fn:
  "GetHeaderByNumber d (p\<lparr>getQueryContext := gqc\<rparr>) 0 = GetHeaderByNumber d p 0"
  by (simp add: GetHeaderByNumber_def readHeaderBytes_genesis)

lemma GetHeaderByNumber_genesis_absent:
  "KVStore (ctx p) (storekey p) [GenesisHeaderKey d] = None \<Longrightarrow>
   GetHeaderByNumber d p 0 =
     ([LiveGet [GenesisHeaderKey d]],
      Returns (None, Some (New ''GetHeader: polaris header not found in kvstore'')))"
  by (simp add: GetHeaderByNumber_def readHeaderBytes_genesis)

lemma snd_GetHeaderByNumber_genesis_present:
  "KVStore (ctx p) (storekey p) [GenesisHeaderKey d] = Some bz \<Longrightarrow>
   snd (GetHeaderByNumber d p 0) =
     (case UnmarshalHeader d bz of
        (hdr, err) \<Rightarrow>
          if err \<noteq> None then Returns (None, Wrap err ''GetHeader: failed to unmarshal'')
          else
            (case Number_Uint64 hdr of
               Panics \<Rightarrow> Panics
             | Returns n \<Rightarrow>
                 if n \<noteq> 0 then
                   Returns (None,
                     Wrapf err ''GetHeader: header number mismatch, got %d, expected %d'' [n, 0])
                 else Returns (hdr, None)))"
  by (simp add: GetHeaderByNumber_def readHeaderBytes_genesis
      split: prod.splits outcome.splits)

lemma GetHeaderByNumber_genesis_present:
  assumes "KVStore (ctx p) (storekey p) [GenesisHeaderKey d] = Some bz"
    and "UnmarshalHeader d bz = (Some h, None)" and "Number h = Some x" and "Uint64 x = 0"
  shows "GetHeaderByNumber d p 0 = ([LiveGet [GenesisHeaderKey d]], Returns (Some h, None))"
  using assms by (simp add: GetHeaderByNumber_def readHeaderBytes_genesis Number_Uint64_def)

lemma GetHeaderByNumber_genesis_slot_only:
  assumes "KVStore (ctx q) (storekey q) [GenesisHeaderKey d] =
      KVStore (ctx p) (storekey p) [GenesisHeaderKey d]"
  shows "GetHeaderByNumber d q 0 = GetHeaderByNumber d p 0"
  using assms by (simp add: GetHeaderByNumber_def readHeaderBytes_genesis)

text \<open>
  Claim C3. \<open>GetHeaderByNumber 0\<close> makes one external call, the read of the genesis
  header key in the live store, and its result is a function of what that key holds
  there: it is the same whatever query context function is installed, and the same
  on every plugin whose live store holds the same under the genesis key. When the key
  holds no bytes, the result is the error "GetHeader: polaris header not found in
  kvstore"; when it holds bytes, the result is what decoding and checking those bytes
  gives, and so the decoded header itself when the bytes decode to a header numbered 0.
\<close>

theorem C3_genesis_isolation:
  "fst (GetHeaderByNumber d p 0) = [LiveGet [GenesisHeaderKey d]] \<and>
   GetHeaderByNumber d (SetQueryContextFn p gqc) 0 = GetHeaderByNumber d p 0 \<and>
   (KVStore (ctx p) (storekey p) [GenesisHeaderKey d] = None \<longrightarrow>
      GetHeaderByNumber d p 0 =
        ([LiveGet [GenesisHeaderKey d]],
         Returns (None, Some (New ''GetHeader: polaris header not found in kvstore'')))) \<and>
   (\<forall>bz. KVStore (ctx p) (storekey p) [GenesisHeaderKey d] = Some bz \<longrightarrow>
      snd (GetHeaderByNumber d p 0) =
        (case UnmarshalHeader d bz of
           (hdr, err) \<Rightarrow>
             if err \<noteq> None then Returns (None, Wrap err ''GetHeader: failed to unmarshal'')
             else
               (case Number_Uint64 hdr of
                  Panics \<Rightarrow> Panics
                | Returns n \<Rightarrow>
                    if n \<noteq> 0 then
                      Returns (None,
                        Wrapf err ''GetHeader: header number mismatch, got %d, expected %d'' [n, 0])
                    else Returns (hdr, None)))) \<and>
   (\<forall>bz h x. KVStore (ctx p) (storekey p) [GenesisHeaderKey d] = Some bz \<and>
        UnmarshalHeader d bz = (Some h, None) \<and> Number h = Some x \<and> Uint64 x = 0 \<longrightarrow>
      GetHeaderByNumber d p 0 = ([LiveGet [GenesisHeaderKey d]], Returns (Some h, None))) \<and>
   (\<forall>q. KVStore (ctx q) (storekey q) [GenesisHeaderKey d] =
          KVStore (ctx p) (storekey p) [GenesisHeaderKey d] \<longrightarrow>
      GetHeaderByNumber d q 0 = GetHeaderByNumber d p 0)"
proof (intro conjI impI allI)
  show "fst (GetHeaderByNumber d p 0) = [LiveGet [GenesisHeaderKey d]]"
    by (simp add: fst_GetHeaderByNumber readHeaderBytes_genesis)
  show "GetHeaderByNumber d (SetQueryContextFn p gqc) 0 = GetHeaderByNumber d p 0"
    unfolding SetQueryContextFn_def by (rule GetHeaderByNumber_genesis_any_fn)
next
  assume "KVStore (ctx p) (storekey p) [GenesisHeaderKey d] = None"
  then show "GetHeaderByNumber d p 0 =
      ([LiveGet [GenesisHeaderKey d]],
       Returns (None, Some (New ''GetHeader: polaris header not found in kvstore'')))"
    by (rule GetHeaderByNumber_genesis_absent)
next
  fix bz
  assume "KVStore (ctx p) (storekey p) [GenesisHeaderKey d] = Some bz"
  then show "snd (GetHeaderByNumber d p 0) =
        (case UnmarshalHeader d bz of
           (hdr, err) \<Rightarrow>
             if err \<noteq> None then Returns (None, Wrap err ''GetHeader: failed to unmarshal'')
             else
               (case Number_Uint64 hdr of
                  Panics \<Rightarrow> Panics
                | Returns n \<Rightarrow>
                    if n \<noteq> 0 then
                      Returns (None,
                        Wrapf err ''GetHeader: header number mismatch, got %d, expected %d'' [n, 0])
                    else Returns (hdr, None)))"
    by (rule snd_GetHeaderByNumber_genesis_present)
next
  fix bz h x
  assume "KVStore (ctx p) (storekey p) [GenesisHeaderKey d] = Some bz \<and>
        UnmarshalHeader d bz = (Some h, None) \<and> Number h = Some x \<and> Uint64 x = 0"
  then show "GetHeaderByNumber d p 0 = ([LiveGet [GenesisHeaderKey d]], Returns (Some h, None))"
    by (simp add: GetHeaderByNumber_genesis_present)
next
  fix q :: plugin
  assume "KVStore (ctx q) (storekey q) [GenesisHeaderKey d] =
          KVStore (ctx p) (storekey p) [GenesisHeaderKey d]"
  then show "GetHeaderByNumber d q 0 = GetHeaderByNumber d p 0"
    by (rule GetHeaderByNumber_genesis_slot_only)
qed

theorem C3_genesis_isolation_witness:
  "GetHeaderByNumber example_deps empty_plugin 0 =
     ([LiveGet [2]], Returns (None, Some (New ''GetHeader: polaris header not found in kvstore''))) \<and>
   GetHeaderByNumber example_deps (SetQueryContextFn empty_plugin (Some example_gqc)) 0 =
     GetHeaderByNumber example_deps empty_plugin 0 \<and>
   GetHeaderByNumber example_deps example_plugin 0 =
     ([LiveGet [2]], Returns (Some (example_header 0), None)) \<and>
   GetHeaderByNumber example_deps (SetQueryContextFn example_plugin None) 0 =
     ([LiveGet [2]], Returns (Some (example_header 0), None))"
proof -
  have absent: "KVStore (ctx empty_plugin) (storekey empty_plugin) [GenesisHeaderKey example_deps] = None"
    by (simp add: empty_plugin_def example_context_def)
  have present: "KVStore (ctx example_plugin) (storekey example_plugin) [GenesisHeaderKey example_deps] =
        Some [0x80, 0xAA, 0xBB] \<and>
      UnmarshalHeader example_deps [0x80, 0xAA, 0xBB] = (Some (example_header 0), None) \<and>
      Number (example_header 0) = Some 0 \<and> Uint64 0 = 0"
    by (simp add: example_defs Uint64_def)
  have key: "GenesisHeaderKey example_deps = 2"
    by (simp add: example_deps_def)
  note e = C3_genesis_isolation [of example_deps empty_plugin "Some example_gqc"]
  note f = C3_genesis_isolation [of example_deps example_plugin None]
  from e have e2: "GetHeaderByNumber example_deps (SetQueryContextFn empty_plugin (Some example_gqc)) 0 =
      GetHeaderByNumber example_deps empty_plugin 0"
    by (elim conjE)
  from e have "KVStore (ctx empty_plugin) (storekey empty_plugin) [GenesisHeaderKey example_deps] = None \<longrightarrow>
      GetHeaderByNumber example_deps empty_plugin 0 =
        ([LiveGet [GenesisHeaderKey example_deps]],
         Returns (None, Some (New ''GetHeader: polaris header not found in kvstore'')))"
    by (elim conjE)
  with absent have e3: "GetHeaderByNumber example_deps empty_plugin 0 =
      ([LiveGet [2]], Returns (None, Some (New ''GetHeader: polaris header not found in kvstore'')))"
    unfolding key by (rule rev_mp)
  from f have f2: "GetHeaderByNumber example_deps (SetQueryContextFn example_plugin None) 0 =
      GetHeaderByNumber example_deps example_plugin 0"
    by (elim conjE)
  from f have "\<forall>bz h x. KVStore (ctx example_plugin) (storekey example_plugin)
          [GenesisHeaderKey example_deps] = Some bz \<and>
        UnmarshalHeader example_deps bz = (Some h, None) \<and> Number h = Some x \<and> Uint64 x = 0 \<longrightarrow>
      GetHeaderByNumber example_deps example_plugin 0 =
        ([LiveGet [GenesisHeaderKey example_deps]], Returns (Some h, None))"
    by (elim conjE)
  from this [THEN spec, THEN spec, THEN spec, THEN mp, OF present]
  have f5: "GetHeaderByNumber example_deps example_plugin 0 =
      ([LiveGet [2]], Returns (Some (example_header 0), None))"
    unfolding key .
  from e3 e2 f5 f2 show ?thesis by simp
qed



text \<open>
  Claim C6. At a height other than 0, with a query context function installed,
  \<open>GetHeaderByNumber\<close> calls that function exactly once, at the clamped height and with
  the proof flag \<open>False\<close>; when the function returns an error, the result is that error
  wrapped with the message "GetHeader: failed to use query context", and no store is
  read.
\<close>

theorem C6_query_context_without_proof:
  assumes "getQueryContext p = Some gqc" and "number \<noteq> 0"
    and "height = (if BlockHeight (ctx p) < number then BlockHeight (ctx p) else number)"
  shows "queryContextCalls (fst (GetHeaderByNumber d p number)) = [(height, False)] \<and>
    (\<forall>qctx e. gqc height False = (qctx, Some e) \<longrightarrow>
       GetHeaderByNumber d p number =
         ([QueryContext height False],
          Returns (None, Some (Wrapped (Some e) ''GetHeader: failed to use query context'' []))))"
proof (intro conjI allI impI)
  show "queryContextCalls (fst (GetHeaderByNumber d p number)) = [(height, False)]"
  proof (cases "gqc height False")
    case (Pair qctx err)
    then show ?thesis
      using assms
      by (cases err) (simp_all add: fst_GetHeaderByNumber readHeaderBytes_failed readHeaderBytes_view)
  qed
next
  fix qctx e
  assume "gqc height False = (qctx, Some e)"
  with assms show "GetHeaderByNumber d p number =
         ([QueryContext height False],
          Returns (None, Some (Wrapped (Some e) ''GetHeader: failed to use query context'' [])))"
    by (simp add: GetHeaderByNumber_def readHeaderBytes_failed)
qed

theorem C6_query_context_without_proof_witness:
  "queryContextCalls (fst (GetHeaderByNumber example_deps example_plugin 9)) = [(5, False)] \<and>
   GetHeaderByNumber example_deps (SetQueryContextFn example_plugin (Some drifted_gqc)) 3 =
     ([QueryContext 3 False],
      Returns (None, Some (Wrapped (Some (New ''height not available''))
         ''GetHeader: failed to use query context'' [])))"
proof -
  have a: "getQueryContext example_plugin = Some example_gqc"
    by (simp add: example_plugin_def)
  have b: "getQueryContext (SetQueryContextFn example_plugin (Some drifted_gqc)) = Some drifted_gqc"
    by (simp add: SetQueryContextFn_def)
  have c: "(5::64 word) = (if BlockHeight (ctx example_plugin) < 9 then BlockHeight (ctx example_plugin) else 9)"
    by (simp add: example_plugin_def example_context_def)
  have e: "(3::64 word) = (if BlockHeight (ctx (SetQueryContextFn example_plugin (Some drifted_gqc))) < 3
         then BlockHeight (ctx (SetQueryContextFn example_plugin (Some drifted_gqc))) else 3)"
    by (simp add: SetQueryContextFn_def example_plugin_def example_context_def)
  have f: "drifted_gqc 3 False = (example_context 0 Map.empty, Some (New ''height not available''))"
    by (simp add: drifted_gqc_def)
  show ?thesis
    using C6_query_context_without_proof [OF a _ c, of example_deps]
      C6_query_context_without_proof [OF b _ e, of example_deps] f
    by simp
qed

subsection \<open>Storing a header\<close>

lemma StoreHeader_encoded:
  assumes "MarshalHeader d (Some h) = (bz, None)" and "Number h = Some x"
  shows "StoreHeader d p (Some h) =
     (p\<lparr>ctx := (ctx p)\<lparr>KVStore := (KVStore (ctx p))
          (storekey p := (KVStore (ctx p) (storekey p))(getKeyForBlockNumber d (Uint64 x) \<mapsto> bz))\<rparr>\<rparr>,
      [LiveSet (getKeyForBlockNumber d (Uint64 x)) bz], Returns None)"
  using assms by (simp add: StoreHeader_def Number_Uint64_def Let_def)

lemma StoreHeader_encode_failed:
  assumes "MarshalHeader d hdr = (bz, Some e)"
  shows "StoreHeader d p hdr =
     (p, [], Returns (Some (Wrapped (Some e) ''SetHeader: failed to marshal header'' [])))"
  using assms by (simp add: StoreHeader_def Wrap_def)

lemma Uint64_eq_0_iff:
  assumes "0 \<le> x" and "x < 2 ^ 64"
  shows "Uint64 x = 0 \<longleftrightarrow> x = 0"
proof -
  from assms have "\<bar>x\<bar> = x" by simp
  moreover have "(word_of_int x :: 64 word) = 0 \<longleftrightarrow> x = 0"
  proof
    assume "(word_of_int x :: 64 word) = 0"
    then have "2 ^ 64 dvd x"
      by (simp add: word_of_int_eq_0_iff)
    show "x = 0"
    proof (rule ccontr)
      assume "x \<noteq> 0"
      with assms have "0 < x" by simp
      with \<open>2 ^ 64 dvd x\<close> have "2 ^ 64 \<le> x" by (rule zdvd_imp_le)
      with assms show False by simp
    qed
  qed simp
  ultimately show ?thesis by (simp add: Uint64_def)
qed

lemma getKeyForBlockNumber_in_range:
  assumes "0 \<le> x" and "x < 2 ^ 64"
  shows "getKeyForBlockNumber d (Uint64 x) = (if x = 0 then [GenesisHeaderKey d] else [HeaderKey d])"
  using Uint64_eq_0_iff [OF assms] by (simp add: getKeyForBlockNumber_def)

lemma be_bytes_two_to_64: "be_bytes 18446744073709551616 = [1, 0, 0, 0, 0, 0, 0, 0, 0]"
  by (simp add: be_bytes.simps)

lemma wide_marshal_two_to_64:
  "MarshalHeader wide_deps (Some (example_header 18446744073709551616)) =
     ([0x89, 1, 0, 0, 0, 0, 0, 0, 0, 0, 0xAA, 0xBB], None)"
  by (simp add: wide_deps_def example_deps_def wide_marshal_def example_header_def
      be_bytes_two_to_64)

text \<open>
  Claim C5, as stated for every header, fails in two places. A header whose \<open>Number\<close> is
  \<open>nil\<close> is encoded by the codec, and \<open>StoreHeader\<close> then panics in
  \<open>header.Number.Uint64()\<close>: nothing is written and no error is returned. And the key is
  chosen from \<open>header.Number.Uint64()\<close>, the low 64 bits: a header numbered \<open>2 ^ 64\<close>,
  which is not 0, is written under the genesis header key.
\<close>

theorem C5_StoreHeader_not_every_header:
  "MarshalHeader example_deps (Some \<lparr>Number = None, Rest = []\<rparr>) = ([0x80], None) \<and>
   StoreHeader example_deps empty_plugin (Some \<lparr>Number = None, Rest = []\<rparr>) =
     (empty_plugin, [], Panics) \<and>
   fst (snd (StoreHeader wide_deps empty_plugin (Some (example_header 18446744073709551616)))) =
     [LiveSet [GenesisHeaderKey wide_deps] [0x89, 1, 0, 0, 0, 0, 0, 0, 0, 0, 0xAA, 0xBB]] \<and>
   GenesisHeaderKey wide_deps \<noteq> HeaderKey wide_deps"
proof (intro conjI)
  show "MarshalHeader example_deps (Some \<lparr>Number = None, Rest = []\<rparr>) = ([0x80], None)"
    by (simp add: example_deps_def example_marshal_def)
  show "StoreHeader example_deps empty_plugin (Some \<lparr>Number = None, Rest = []\<rparr>) =
     (empty_plugin, [], Panics)"
    by (simp add: StoreHeader_def Number_Uint64_def example_deps_def example_marshal_def)
  have n: "Number (example_header 18446744073709551616) = Some 18446744073709551616"
    by (simp add: example_header_def)
  have u: "Uint64 18446744073709551616 = 0"
    by (simp add: Uint64_def)
  have k: "getKeyForBlockNumber wide_deps 0 = [GenesisHeaderKey wide_deps]"
    by (simp add: getKeyForBlockNumber_def)
  show "fst (snd (StoreHeader wide_deps empty_plugin (Some (example_header 18446744073709551616)))) =
     [LiveSet [GenesisHeaderKey wide_deps] [0x89, 1, 0, 0, 0, 0, 0, 0, 0, 0, 0xAA, 0xBB]]"
    by (simp add: StoreHeader_encoded [OF wide_marshal_two_to_64 n] u k)
  show "GenesisHeaderKey wide_deps \<noteq> HeaderKey wide_deps"
    by (simp add: wide_deps_def example_deps_def)
qed

text \<open>
  Claim C5, amended. For a header that is not \<open>nil\<close> and whose \<open>Number\<close> is not \<open>nil\<close>:
  when the codec encodes the header, the encoded bytes are written, by one \<open>Set\<close>, in the
  live store of the plugin's store key under \<open>getKeyForBlockNumber\<close> of
  \<open>header.Number.Uint64()\<close>, and nothing else of the plugin changes; for a number from 0
  up to \<open>2 ^ 64 - 1\<close> that key is the genesis header key when the number is 0 and the
  header key otherwise. For any header, when the codec fails, the plugin is returned
  unchanged, no store call is made, and the codec's error is returned wrapped with the
  message "SetHeader: failed to marshal header".
\<close>

theorem C5_StoreHeader:
  "(MarshalHeader d (Some h) = (bz, None) \<and> Number h = Some x \<longrightarrow>
      (\<exists>p'. StoreHeader d p (Some h) =
               (p', [LiveSet (getKeyForBlockNumber d (Uint64 x)) bz], Returns None) \<and>
            KVStore (ctx p') (storekey p) =
              (KVStore (ctx p) (storekey p))(getKeyForBlockNumber d (Uint64 x) \<mapsto> bz) \<and>
            (\<forall>k. k \<noteq> storekey p \<longrightarrow> KVStore (ctx p') k = KVStore (ctx p) k) \<and>
            BlockHeight (ctx p') = BlockHeight (ctx p) \<and>
            storekey p' = storekey p \<and> getQueryContext p' = getQueryContext p)) \<and>
   (0 \<le> x \<and> x < 2 ^ 64 \<longrightarrow>
      getKeyForBlockNumber d (Uint64 x) =
        (if x = 0 then [GenesisHeaderKey d] else [HeaderKey d])) \<and>
   (MarshalHeader d hdr = (bz', Some e) \<longrightarrow>
      StoreHeader d p hdr =
        (p, [], Returns (Some (Wrapped (Some e) ''SetHeader: failed to marshal header'' []))))"
proof (intro conjI impI)
  assume "MarshalHeader d (Some h) = (bz, None) \<and> Number h = Some x"
  then have "StoreHeader d p (Some h) =
     (p\<lparr>ctx := (ctx p)\<lparr>KVStore := (KVStore (ctx p))
          (storekey p := (KVStore (ctx p) (storekey p))(getKeyForBlockNumber d (Uint64 x) \<mapsto> bz))\<rparr>\<rparr>,
      [LiveSet (getKeyForBlockNumber d (Uint64 x)) bz], Returns None)"
    by (simp add: StoreHeader_encoded)
  then show "\<exists>p'. StoreHeader d p (Some h) =
               (p', [LiveSet (getKeyForBlockNumber d (Uint64 x)) bz], Returns None) \<and>
            KVStore (ctx p') (storekey p) =
              (KVStore (ctx p) (storekey p))(getKeyForBlockNumber d (Uint64 x) \<mapsto> bz) \<and>
            (\<forall>k. k \<noteq> storekey p \<longrightarrow> KVStore (ctx p') k = KVStore (ctx p) k) \<and>
            BlockHeight (ctx p') = BlockHeight (ctx p) \<and>
            storekey p' = storekey p \<and> getQueryContext p' = getQueryContext p"
    by simp
next
  assume "0 \<le> x \<and> x < 2 ^ 64"
  then show "getKeyForBlockNumber d (Uint64 x) =
      (if x = 0 then [GenesisHeaderKey d] else [HeaderKey d])"
    by (simp add: getKeyForBlockNumber_in_range)
next
  assume "MarshalHeader d hdr = (bz', Some e)"
  then show "StoreHeader d p hdr =
        (p, [], Returns (Some (Wrapped (Some e) ''SetHeader: failed to marshal header'' [])))"
    by (rule StoreHeader_encode_failed)
qed

theorem C5_StoreHeader_witness:
  "(\<exists>p'. StoreHeader example_deps empty_plugin (Some (example_header 3)) =
           (p', [LiveSet [1] [3, 0xAA, 0xBB]], Returns None) \<and>
         KVStore (ctx p') ''evm'' = [[1] \<mapsto> [3, 0xAA, 0xBB]]) \<and>
   StoreHeader example_deps empty_plugin (Some (example_header (- 3))) =
     (empty_plugin, [],
      Returns (Some (Wrapped (Some (New ''rlp: cannot encode negative big.Int''))
         ''SetHeader: failed to marshal header'' [])))"
proof -
  have a: "MarshalHeader example_deps (Some (example_header 3)) = ([3, 0xAA, 0xBB], None) \<and>
      Number (example_header 3) = Some 3"
    by (simp add: example_defs)
  have b: "MarshalHeader example_deps (Some (example_header (- 3))) =
      ([], Some (New ''rlp: cannot encode negative big.Int''))"
    by (simp add: example_defs)
  have s: "storekey empty_plugin = ''evm''" "KVStore (ctx empty_plugin) ''evm'' = Map.empty"
    by (simp_all add: empty_plugin_def example_context_def)
  note t = C5_StoreHeader [of example_deps "example_header 3" "[3, 0xAA, 0xBB]" 3 empty_plugin
      "Some (example_header (- 3))" "[]" "New ''rlp: cannot encode negative big.Int''"]
  have r: "(0::int) \<le> 3 \<and> (3::int) < 2 ^ 64"
    by simp
  from t [THEN conjunct2, THEN conjunct1, THEN mp, OF r]
  have k: "getKeyForBlockNumber example_deps (Uint64 3) = [1]"
    by (simp add: example_deps_def)
  from t [THEN conjunct1, THEN mp, OF a] obtain p' where
    p1: "StoreHeader example_deps empty_plugin (Some (example_header 3)) =
       (p', [LiveSet (getKeyForBlockNumber example_deps (Uint64 3)) [3, 0xAA, 0xBB]], Returns None)"
    and p2: "KVStore (ctx p') (storekey empty_plugin) =
       (KVStore (ctx empty_plugin) (storekey empty_plugin))
         (getKeyForBlockNumber example_deps (Uint64 3) \<mapsto> [3, 0xAA, 0xBB])"
    by (elim exE conjE)
  have "\<exists>p'. StoreHeader example_deps empty_plugin (Some (example_header 3)) =
           (p', [LiveSet [1] [3, 0xAA, 0xBB]], Returns None) \<and>
         KVStore (ctx p') ''evm'' = [[1] \<mapsto> [3, 0xAA, 0xBB]]"
  proof (rule exI [of _ p'], rule conjI)
    show "StoreHeader example_deps empty_plugin (Some (example_header 3)) =
           (p', [LiveSet [1] [3, 0xAA, 0xBB]], Returns None)"
      using p1 unfolding k .
    show "KVStore (ctx p') ''evm'' = [[1] \<mapsto> [3, 0xAA, 0xBB]]"
      using p2 unfolding k s .
  qed
  moreover have "StoreHeader example_deps empty_plugin (Some (example_header (- 3))) =
     (empty_plugin, [],
      Returns (Some (Wrapped (Some (New ''rlp: cannot encode negative big.Int''))
         ''SetHeader: failed to marshal header'' [])))"
    by (rule t [THEN conjunct2, THEN conjunct2, THEN mp, OF b])
  ultimately show ?thesis by (rule conjI)
qed

subsection \<open>Decoding and the number check\<close>

lemma GetHeaderByNumber_decoded:
  assumes "readHeaderBytes d p number = (tr, Some bz, None)"
    and "UnmarshalHeader d bz = (Some h, None)" and "Number h = Some x"
  shows "GetHeaderByNumber d p number =
     (tr, if Uint64 x \<noteq> number
          then Returns (None, Some (Wrapped None
                 ''GetHeader: header number mismatch, got %d, expected %d'' [Uint64 x, number]))
          else Returns (Some h, None))"
  using assms by (simp add: GetHeaderByNumber_def Number_Uint64_def Wrapf_def)

lemma GetHeaderByNumber_success_number:
  assumes "GetHeaderByNumber d p number = (tr, Returns (Some h, None))"
  shows "Number_Uint64 (Some h) = Returns number"
  using assms
  by (auto simp: GetHeaderByNumber_def Wrap_def Wrapf_def
      split: prod.splits option.splits if_splits outcome.splits)

text \<open>
  The mismatch check of \<open>GetHeaderByNumber\<close> compares the decoded number with the height
  as requested: whenever they differ, the result is the mismatch error holding both.
\<close>

lemma GetHeaderByNumber_mismatch_requested:
  assumes "number \<noteq> 0" and "getQueryContext p = Some gqc"
    and "gqc (if BlockHeight (ctx p) < number then BlockHeight (ctx p) else number) False = (qctx, None)"
    and "KVStore qctx (storekey p) [HeaderKey d] = Some bz"
    and "UnmarshalHeader d bz = (Some h, None)" and "Number h = Some x"
    and "Uint64 x \<noteq> number"
  shows "snd (GetHeaderByNumber d p number) =
     Returns (None, Some (Wrapped None
       ''GetHeader: header number mismatch, got %d, expected %d'' [Uint64 x, number]))"
proof -
  have "readHeaderBytes d p number =
     ([QueryContext (if BlockHeight (ctx p) < number then BlockHeight (ctx p) else number) False,
       ViewGet [HeaderKey d]], Some bz, None)"
    using assms(1-4) by (simp add: readHeaderBytes_view)
  from GetHeaderByNumber_decoded [OF this assms(5,6)] assms(7) show ?thesis
    by simp
qed

text \<open>
  Hence a request above the current height, answered from a view that holds the header
  of the current height, ends in the mismatch error.
\<close>

lemma GetHeaderByNumber_future_height:
  assumes "getQueryContext p = Some gqc" and "BlockHeight (ctx p) < number"
    and "gqc (BlockHeight (ctx p)) False = (qctx, None)"
    and "KVStore qctx (storekey p) [HeaderKey d] = Some bz"
    and "UnmarshalHeader d bz = (Some h, None)" and "Number h = Some x"
    and "Uint64 x = BlockHeight (ctx p)"
  shows "snd (GetHeaderByNumber d p number) =
     Returns (None, Some (Wrapped None
       ''GetHeader: header number mismatch, got %d, expected %d'' [BlockHeight (ctx p), number]))"
proof -
  from assms(2) have nz: "number \<noteq> 0"
    by (metis word_not_simps(1))
  from assms(2,7) have ne: "Uint64 x \<noteq> number"
    by simp
  from assms(2,3) have "gqc (if BlockHeight (ctx p) < number then BlockHeight (ctx p) else number) False = (qctx, None)"
    by simp
  from GetHeaderByNumber_mismatch_requested [OF nz assms(1) this assms(4,5,6) ne] assms(7)
  show ?thesis by simp
qed

lemma StoreHeader_success:
  assumes "StoreHeader d p (Some h) = (p', tr, Returns None)" and "Number h = Some x"
  shows "snd (MarshalHeader d (Some h)) = None \<and>
    KVStore (ctx p') (storekey p) (getKeyForBlockNumber d (Uint64 x)) =
      Some (fst (MarshalHeader d (Some h)))"
proof (cases "MarshalHeader d (Some h)")
  case (Pair bz err)
  show ?thesis
  proof (cases err)
    case None
    with Pair assms(2) have "StoreHeader d p (Some h) =
     (p\<lparr>ctx := (ctx p)\<lparr>KVStore := (KVStore (ctx p))
          (storekey p := (KVStore (ctx p) (storekey p))(getKeyForBlockNumber d (Uint64 x) \<mapsto> bz))\<rparr>\<rparr>,
      [LiveSet (getKeyForBlockNumber d (Uint64 x)) bz], Returns None)"
      by (simp add: StoreHeader_encoded)
    with assms(1) have "p' = p\<lparr>ctx := (ctx p)\<lparr>KVStore := (KVStore (ctx p))
          (storekey p := (KVStore (ctx p) (storekey p))(getKeyForBlockNumber d (Uint64 x) \<mapsto> bz))\<rparr>\<rparr>"
      by simp
    with Pair None show ?thesis by simp
  next
    case (Some e)
    with Pair assms(1) show ?thesis
      by (simp add: StoreHeader_encode_failed)
  qed
qed

text \<open>
  Claim C4. Let a header numbered \<open>H\<close> have been stored by a successful \<open>StoreHeader\<close>,
  and let the codec decode the stored bytes back to that header. If \<open>H\<close> is not 0, is at
  most the current block height, and the view that the query context function gives at
  \<open>H\<close> holds the stored bytes under the header key (for \<open>H = 0\<close>: the live store still
  holds them under the genesis key), then \<open>GetHeaderByNumber H\<close> returns that header
  without an error, and its number is \<open>H\<close>.
\<close>

theorem C4_height_fidelity:
  assumes stored: "StoreHeader d p (Some h) = (p', tr, Returns None)"
    and num: "Number h = Some x" "Uint64 x = H"
    and roundtrip: "UnmarshalHeader d (fst (MarshalHeader d (Some h))) = (Some h, None)"
    and view: "H \<noteq> 0 \<Longrightarrow>
       H \<le> BlockHeight (ctx q) \<and> getQueryContext q = Some gqc \<and> gqc H False = (qctx, None) \<and>
       KVStore qctx (storekey q) [HeaderKey d] =
         KVStore (ctx p') (storekey p) (getKeyForBlockNumber d H)"
    and live: "H = 0 \<Longrightarrow>
       KVStore (ctx q) (storekey q) [GenesisHeaderKey d] =
         KVStore (ctx p') (storekey p) (getKeyForBlockNumber d H)"
  shows "\<exists>h'. snd (GetHeaderByNumber d q H) = Returns (Some h', None) \<and>
     Number_Uint64 (Some h') = Returns H \<and> h' = h"
proof -
  from StoreHeader_success [OF stored num(1)] num(2)
  have slot: "KVStore (ctx p') (storekey p) (getKeyForBlockNumber d H) =
      Some (fst (MarshalHeader d (Some h)))"
    by simp
  have "\<exists>t. readHeaderBytes d q H = (t, Some (fst (MarshalHeader d (Some h))), None)"
  proof (cases "H = 0")
    case True
    with live slot show ?thesis
      by (simp add: readHeaderBytes_genesis)
  next
    case False
    from view [OF False] have le: "\<not> BlockHeight (ctx q) < H"
      and fn: "getQueryContext q = Some gqc" and ok: "gqc H False = (qctx, None)"
      and bz: "KVStore qctx (storekey q) [HeaderKey d] =
         KVStore (ctx p') (storekey p) (getKeyForBlockNumber d H)"
      by (simp_all add: not_less)
    from le ok have "gqc (if BlockHeight (ctx q) < H then BlockHeight (ctx q) else H) False = (qctx, None)"
      by simp
    from readHeaderBytes_view [OF False fn this, of d] bz slot show ?thesis
      by simp
  qed
  then obtain t where "readHeaderBytes d q H = (t, Some (fst (MarshalHeader d (Some h))), None)" ..
  from GetHeaderByNumber_decoded [OF this roundtrip num(1)] num
  show ?thesis
    by (simp add: Number_Uint64_def)
qed

lemma example_unmarshal_header:
  "example_unmarshal bz = (hdr, None) \<Longrightarrow> \<exists>h x. hdr = Some h \<and> Number h = Some x"
  by (cases bz) (auto simp: example_unmarshal_def split: if_splits)

theorem C4_height_fidelity_witness:
  "snd (GetHeaderByNumber example_deps example_plugin 5) = Returns (Some (example_header 5), None) \<and>
   snd (GetHeaderByNumber example_deps example_plugin 0) = Returns (Some (example_header 0), None)"
proof -
  let ?d = example_deps and ?p = empty_plugin and ?q = example_plugin
  have m5: "MarshalHeader ?d (Some (example_header 5)) = ([5, 0xAA, 0xBB], None)"
    and m0: "MarshalHeader ?d (Some (example_header 0)) = ([0x80, 0xAA, 0xBB], None)"
    and n5: "Number (example_header 5) = Some 5" and n0: "Number (example_header 0) = Some 0"
    by (simp_all add: example_deps_def example_marshal_def example_header_def)
  have u5: "Uint64 5 = 5" and u0: "Uint64 0 = 0"
    by (simp_all add: Uint64_def)
  have k5: "getKeyForBlockNumber ?d 5 = [1]" and k0: "getKeyForBlockNumber ?d 0 = [2]"
    by (simp_all add: getKeyForBlockNumber_def example_deps_def)
  have r5: "UnmarshalHeader ?d (fst (MarshalHeader ?d (Some (example_header 5)))) =
      (Some (example_header 5), None)"
    and r0: "UnmarshalHeader ?d (fst (MarshalHeader ?d (Some (example_header 0)))) =
      (Some (example_header 0), None)"
    unfolding m5 m0 by (simp_all add: example_deps_def example_unmarshal_def example_header_def)
  have s5: "StoreHeader ?d ?p (Some (example_header 5)) =
      (fst (StoreHeader ?d ?p (Some (example_header 5))), [LiveSet [1] [5, 0xAA, 0xBB]], Returns None)"
    and s0: "StoreHeader ?d ?p (Some (example_header 0)) =
      (fst (StoreHeader ?d ?p (Some (example_header 0))), [LiveSet [2] [0x80, 0xAA, 0xBB]], Returns None)"
    by (simp_all add: StoreHeader_encoded [OF m5 n5] StoreHeader_encoded [OF m0 n0] u5 u0 k5 k0)
  have l5: "KVStore (ctx (fst (StoreHeader ?d ?p (Some (example_header 5))))) (storekey ?p) [1] =
      Some [5, 0xAA, 0xBB]"
    and l0: "KVStore (ctx (fst (StoreHeader ?d ?p (Some (example_header 0))))) (storekey ?p) [2] =
      Some [0x80, 0xAA, 0xBB]"
    by (simp_all add: StoreHeader_encoded [OF m5 n5] StoreHeader_encoded [OF m0 n0] u5 u0 k5 k0)
  have v: "(5::64 word) \<le> BlockHeight (ctx ?q) \<and> getQueryContext ?q = Some example_gqc \<and>
      example_gqc 5 False = (example_context 5 [[1] \<mapsto> [5, 0xAA, 0xBB]], None) \<and>
      KVStore (example_context 5 [[1] \<mapsto> [5, 0xAA, 0xBB]]) (storekey ?q) [HeaderKey ?d] =
        KVStore (ctx (fst (StoreHeader ?d ?p (Some (example_header 5))))) (storekey ?p)
          (getKeyForBlockNumber ?d 5)"
    unfolding k5 l5
    by (simp add: example_plugin_def example_gqc_def example_context_def example_deps_def
        example_marshal_def example_header_def)
  have g: "KVStore (ctx ?q) (storekey ?q) [GenesisHeaderKey ?d] =
        KVStore (ctx (fst (StoreHeader ?d ?p (Some (example_header 0))))) (storekey ?p)
          (getKeyForBlockNumber ?d 0)"
    unfolding k0 l0
    by (simp add: example_plugin_def example_context_def example_deps_def
        example_marshal_def example_header_def)
  from C4_height_fidelity [OF s5 n5 u5 r5 v] C4_height_fidelity [OF s0 n0 u0 r0 _ g]
  show ?thesis by simp
qed

text \<open>
  Claim C9, as stated, fails: \<open>StoreHeader\<close> on a header whose \<open>Number\<close> is \<open>nil\<close>,
  which the codec encodes, dereferences \<open>nil\<close> in \<open>header.Number.Uint64()\<close> and panics,
  with every call into the host returning normally.
\<close>

theorem C9_StoreHeader_panics:
  "snd (snd (StoreHeader example_deps empty_plugin (Some \<lparr>Number = None, Rest = []\<rparr>))) = Panics"
  by (simp add: StoreHeader_def Number_Uint64_def example_deps_def example_marshal_def)

text \<open>
  The result on decoded bytes, with the mismatch error left as the application of
  \<open>Wrapf\<close> to the \<open>nil\<close> error that header.go:60 passes.
\<close>

lemma GetHeaderByNumber_decoded_Wrapf:
  assumes "readHeaderBytes d p number = (tr, Some bz, None)"
    and "UnmarshalHeader d bz = (Some h, None)" and "Number h = Some x"
  shows "GetHeaderByNumber d p number =
     (tr, if Uint64 x \<noteq> number
          then Returns (None,
                 Wrapf None ''GetHeader: header number mismatch, got %d, expected %d''
                   [Uint64 x, number])
          else Returns (Some h, None))"
  using assms by (simp add: GetHeaderByNumber_def Number_Uint64_def)

text \<open>
  Claim C9, amended. Calls into the host are taken to return (the store key is mounted
  in every context, and \<open>Get\<close>, \<open>Set\<close>, the query context function and the codec do not
  panic). If the codec never returns, without an error, a \<open>nil\<close> header or a header whose
  \<open>Number\<close> is \<open>nil\<close>, then \<open>GetHeaderByNumber\<close> at any height and on any store contents
  does not panic in its own code: it returns a header with no error, or no header with an
  error, or, where the decoded number differs from the requested height, no header with
  what \<open>Wrapf\<close> returns for the \<open>nil\<close> error of header.go:60. \<open>StoreHeader\<close> on a header
  that is not \<open>nil\<close> and whose \<open>Number\<close> is not \<open>nil\<close> does not panic in its own code: it
  returns its error value.
\<close>

theorem C9_no_panic:
  "((\<forall>bz hdr. UnmarshalHeader d bz = (hdr, None) \<longrightarrow> (\<exists>h x. hdr = Some h \<and> Number h = Some x)) \<longrightarrow>
      (\<exists>hdr err. snd (GetHeaderByNumber d p number) = Returns (hdr, err) \<and>
         (hdr \<noteq> None \<and> err = None \<or>
          hdr = None \<and> err \<noteq> None \<or>
          hdr = None \<and>
            (\<exists>n. n \<noteq> number \<and>
               err = Wrapf None ''GetHeader: header number mismatch, got %d, expected %d''
                       [n, number])))) \<and>
   (Number h = Some x \<longrightarrow> (\<exists>err. snd (snd (StoreHeader d p (Some h))) = Returns err))"
proof (intro conjI impI)
  let ?ok = "\<lambda>hdr err. hdr \<noteq> None \<and> err = None \<or>
          hdr = None \<and> err \<noteq> None \<or>
          hdr = None \<and>
            (\<exists>n. n \<noteq> number \<and>
               err = Wrapf None ''GetHeader: header number mismatch, got %d, expected %d''
                       [n, number])"
  assume dec: "\<forall>bz hdr. UnmarshalHeader d bz = (hdr, None) \<longrightarrow> (\<exists>h x. hdr = Some h \<and> Number h = Some x)"
  obtain tr bz err where r: "readHeaderBytes d p number = (tr, bz, err)"
    by (cases "readHeaderBytes d p number") auto
  show "\<exists>hdr err. snd (GetHeaderByNumber d p number) = Returns (hdr, err) \<and> ?ok hdr err"
  proof (cases err)
    case (Some e)
    with r have "snd (GetHeaderByNumber d p number) = Returns (None, Some e)"
      by (simp add: GetHeaderByNumber_def)
    then show ?thesis by simp
  next
    case None
    note errNone = this
    show ?thesis
    proof (cases bz)
      case None
      with r errNone have "snd (GetHeaderByNumber d p number) =
          Returns (None, Some (New ''GetHeader: polaris header not found in kvstore''))"
        by (simp add: GetHeaderByNumber_def)
      then show ?thesis by simp
    next
      case (Some b)
      obtain hdr uerr where u: "UnmarshalHeader d b = (hdr, uerr)"
        by (cases "UnmarshalHeader d b") auto
      show ?thesis
      proof (cases uerr)
        case (Some e)
        with r errNone \<open>bz = Some b\<close> u have "snd (GetHeaderByNumber d p number) =
            Returns (None, Some (Wrapped (Some e) ''GetHeader: failed to unmarshal'' []))"
          by (simp add: GetHeaderByNumber_def Wrap_def)
        then show ?thesis by simp
      next
        case None
        with dec u obtain h x where hx: "hdr = Some h" "Number h = Some x"
          by blast
        from r errNone \<open>bz = Some b\<close> have rb: "readHeaderBytes d p number = (tr, Some b, None)"
          by simp
        from u None hx have ub: "UnmarshalHeader d b = (Some h, None)"
          by simp
        note g = GetHeaderByNumber_decoded_Wrapf [OF rb ub hx(2)]
        show ?thesis
        proof (cases "Uint64 x = number")
          case True
          with g have "snd (GetHeaderByNumber d p number) = Returns (Some h, None)"
            by simp
          then show ?thesis by simp
        next
          case False
          with g have "snd (GetHeaderByNumber d p number) =
              Returns (None,
                Wrapf None ''GetHeader: header number mismatch, got %d, expected %d''
                  [Uint64 x, number])"
            by simp
          with False show ?thesis by blast
        qed
      qed
    qed
  qed
next
  assume n: "Number h = Some x"
  obtain bz err where m: "MarshalHeader d (Some h) = (bz, err)"
    by (cases "MarshalHeader d (Some h)") auto
  show "\<exists>err. snd (snd (StoreHeader d p (Some h))) = Returns err"
  proof (cases err)
    case None
    with m n show ?thesis by (simp add: StoreHeader_encoded)
  next
    case (Some e)
    with m show ?thesis by (simp add: StoreHeader_encode_failed)
  qed
qed

theorem C9_no_panic_witness:
  "snd (GetHeaderByNumber example_deps example_plugin 9) \<noteq> Panics \<and>
   snd (snd (StoreHeader example_deps example_plugin (Some (example_header 3)))) \<noteq> Panics"
proof -
  have dec: "\<forall>bz hdr. UnmarshalHeader example_deps bz = (hdr, None) \<longrightarrow>
      (\<exists>h x. hdr = Some h \<and> Number h = Some x)"
    by (auto simp: example_deps_def dest: example_unmarshal_header)
  have n: "Number (example_header 3) = Some 3"
    by (simp add: example_header_def)
  note t = C9_no_panic [of example_deps example_plugin 9 "example_header 3" 3]
  from t [THEN conjunct1, THEN mp, OF dec]
  have "snd (GetHeaderByNumber example_deps example_plugin 9) \<noteq> Panics"
    by auto
  moreover from t [THEN conjunct2, THEN mp, OF n]
  have "snd (snd (StoreHeader example_deps example_plugin (Some (example_header 3)))) \<noteq> Panics"
    by auto
  ultimately show ?thesis by (rule conjI)
qed

subsection \<open>Requests above the current height\<close>

lemma example_view_5:
  "readHeaderBytes example_deps example_plugin 5 =
     ([QueryContext 5 False, ViewGet [1]], Some [5, 0xAA, 0xBB], None)"
  by (simp add: readHeaderBytes_def example_plugin_def example_gqc_def example_context_def
      example_deps_def example_marshal_def example_header_def)

lemma example_view_9:
  "readHeaderBytes example_deps example_plugin 9 =
     ([QueryContext 5 False, ViewGet [1]], Some [5, 0xAA, 0xBB], None)"
  by (simp add: readHeaderBytes_def example_plugin_def example_gqc_def example_context_def
      example_deps_def example_marshal_def example_header_def)

lemma drifted_view_9:
  "readHeaderBytes example_deps (SetQueryContextFn example_plugin (Some drifted_gqc)) 9 =
     ([QueryContext 5 False, ViewGet [1]], Some [9, 0xAA, 0xBB], None)"
  by (simp add: readHeaderBytes_def SetQueryContextFn_def example_plugin_def drifted_gqc_def
      example_context_def example_deps_def example_marshal_def example_header_def)

lemma example_unmarshal_5:
  "UnmarshalHeader example_deps [5, 0xAA, 0xBB] = (Some (example_header 5), None)"
  by (simp add: example_deps_def example_unmarshal_def example_header_def)

lemma example_unmarshal_9:
  "UnmarshalHeader example_deps [9, 0xAA, 0xBB] = (Some (example_header 9), None)"
  by (simp add: example_deps_def example_unmarshal_def example_header_def)

text \<open>
  Claim C2, evaluated at block height 5 with the header numbered 5 in the view at height
  5: \<open>GetHeaderByNumber 5\<close> returns that header, while \<open>GetHeaderByNumber 9\<close> reads the same
  view (the height is clamped to 5 inside \<open>readHeaderBytes\<close>) and then returns the
  mismatch error "got 5, expected 9", because the check compares with the caller's 9.
\<close>

theorem C2_future_height_mismatch:
  "BlockHeight (ctx example_plugin) = 5 \<and>
   GetHeaderByNumber example_deps example_plugin 5 =
     ([QueryContext 5 False, ViewGet [1]], Returns (Some (example_header 5), None)) \<and>
   GetHeaderByNumber example_deps example_plugin 9 =
     ([QueryContext 5 False, ViewGet [1]],
      Returns (None, Some (Wrapped None
        ''GetHeader: header number mismatch, got %d, expected %d'' [5, 9])))"
  using GetHeaderByNumber_decoded [OF example_view_5 example_unmarshal_5, of 5]
    GetHeaderByNumber_decoded [OF example_view_9 example_unmarshal_5, of 5]
  by (simp add: example_header_def Uint64_def example_plugin_def example_context_def)

text \<open>
  Claim C1, evaluated at block height 5 where the view at height 5 holds a header
  numbered 9: \<open>GetHeaderByNumber 9\<close> reads the view at the clamped height 5 and returns
  the header numbered 9 without an error, although 9 differs from the clamped height 5.
\<close>

theorem C1_mismatch_checked_against_unclamped_height:
  "BlockHeight (ctx (SetQueryContextFn example_plugin (Some drifted_gqc))) = 5 \<and>
   GetHeaderByNumber example_deps (SetQueryContextFn example_plugin (Some drifted_gqc)) 9 =
     ([QueryContext 5 False, ViewGet [1]], Returns (Some (example_header 9), None))"
  using GetHeaderByNumber_decoded [OF drifted_view_9 example_unmarshal_9, of 9]
  by (simp add: example_header_def Uint64_def SetQueryContextFn_def example_plugin_def
      example_context_def)

end
